theory Spec2Isabelle
  imports Main "HOL-Library.Word"
begin

section \<open>JavaScript strings and values\<close>

text \<open>
  A JavaScript string is a sequence of UTF-16 code units. \<open>ascii\<close> embeds a literal
  of the source (all of them are ASCII) into that type.
\<close>

type_synonym jsstring = "16 word list"

definition ascii :: "string \<Rightarrow> jsstring" where
  "ascii s = map of_char s"

text \<open>
  The values \<open>JSON.parse\<close> and \<open>response.json()\<close> produce. A number is kept as the
  decimal the text wrote, \<open>JNum m e\<close> for \<open>m * 10 ^ e\<close>; an object keeps its members
  in the order of the text, a repeated key included (a later member overrides an earlier
  one when the property is read). \<open>jsval\<close> adds \<open>undefined\<close>, which a property read
  can give and a parse never does.
\<close>

datatype json =
    JNull
  | JBool bool
  | JNum int int
  | JStr jsstring
  | JArr "json list"
  | JObj "(jsstring \<times> json) list"

datatype jsval = Undefined | Value json

datatype js_error = TypeError | SyntaxError | NetworkError

subsection \<open>Truthiness, property reads, optional chaining\<close>

text \<open>
  \<open>ToBoolean\<close>: \<open>undefined\<close>, \<open>null\<close>, \<open>false\<close>, the empty string and the number
  zero are falsy, every object and array is truthy. A decimal denotes the number zero
  when it rounds to zero as a double (round to nearest, ties to even): its magnitude is
  at most \<open>2 ^ -1075\<close>, half of the least positive double.
\<close>

definition isZero :: "int \<Rightarrow> int \<Rightarrow> bool" where
  "isZero m e =
     (if 0 \<le> e then m = 0 else \<bar>m\<bar> * 2 ^ 1075 \<le> 10 ^ nat (- e))"

fun truthy :: "jsval \<Rightarrow> bool" where
  "truthy Undefined = False"
| "truthy (Value JNull) = False"
| "truthy (Value (JBool b)) = b"
| "truthy (Value (JNum m e)) = (\<not> isZero m e)"
| "truthy (Value (JStr s)) = (s \<noteq> [])"
| "truthy (Value (JArr xs)) = True"
| "truthy (Value (JObj ms)) = True"

text \<open>\<open>a || d\<close> with a string literal \<open>d\<close>.\<close>

definition or_else :: "jsval \<Rightarrow> jsstring \<Rightarrow> jsval" where
  "or_else a d = (if truthy a then a else Value (JStr d))"

text \<open>
  \<open>v.k\<close> for a value \<open>v\<close> that is neither \<open>null\<close> nor \<open>undefined\<close>, and a name
  \<open>k\<close> that no built-in prototype defines (the six names the source reads:
  \<open>response\<close>, \<open>analysis\<close>, \<open>final_answer\<close>, \<open>risk_assessment\<close>,
  \<open>documentation_and_approvals\<close>, \<open>procurement_strategy\<close>): an own property of an
  object, \<open>undefined\<close> on a string, number, boolean or array.
\<close>

fun getProp :: "json \<Rightarrow> jsstring \<Rightarrow> jsval" where
  "getProp (JObj ms) k = (case map_of (rev ms) k of None \<Rightarrow> Undefined | Some v \<Rightarrow> Value v)"
| "getProp v k = Undefined"

text \<open>\<open>a.k\<close>: a \<open>TypeError\<close> on \<open>null\<close> and \<open>undefined\<close>.\<close>

fun member :: "jsval \<Rightarrow> jsstring \<Rightarrow> js_error + jsval" where
  "member Undefined k = Inl TypeError"
| "member (Value JNull) k = Inl TypeError"
| "member (Value v) k = Inr (getProp v k)"

text \<open>\<open>a?.k\<close>: \<open>undefined\<close> on \<open>null\<close> and \<open>undefined\<close>.\<close>

fun opt_member :: "jsval \<Rightarrow> jsstring \<Rightarrow> jsval" where
  "opt_member Undefined k = Undefined"
| "opt_member (Value JNull) k = Undefined"
| "opt_member (Value v) k = getProp v k"

subsection \<open>ToString\<close>

text \<open>
  The conversion \<open>JSON.parse\<close> applies to its argument before it parses. The digits
  \<open>Number::toString\<close> prints for a double are outside this development and are taken
  as the parameter \<open>fmt\<close>; everything proved holds for every \<open>fmt\<close>. An array prints
  its elements joined by commas, \<open>null\<close> as the empty string.
\<close>

fun join :: "jsstring list \<Rightarrow> jsstring" where
  "join [] = []"
| "join [s] = s"
| "join (s # t # ss) = s @ 0x2C # join (t # ss)"

fun ToString_json :: "(int \<Rightarrow> int \<Rightarrow> jsstring) \<Rightarrow> json \<Rightarrow> jsstring" where
  "ToString_json fmt JNull = ascii ''null''"
| "ToString_json fmt (JBool b) = (if b then ascii ''true'' else ascii ''false'')"
| "ToString_json fmt (JNum m e) = fmt m e"
| "ToString_json fmt (JStr s) = s"
| "ToString_json fmt (JArr xs) =
     join (map (\<lambda>x. if x = JNull then [] else ToString_json fmt x) xs)"
| "ToString_json fmt (JObj ms) = ascii ''[object Object]''"

fun ToString :: "(int \<Rightarrow> int \<Rightarrow> jsstring) \<Rightarrow> jsval \<Rightarrow> jsstring" where
  "ToString fmt Undefined = ascii ''undefined''"
| "ToString fmt (Value v) = ToString_json fmt v"

section \<open>JSON.parse\<close>

subsection \<open>Tokens\<close>

datatype token =
    LBrace | RBrace | LBracket | RBracket | Colon | Comma
  | StringTok jsstring
  | NumberTok int int
  | TrueTok | FalseTok | NullTok

definition isWhite :: "16 word \<Rightarrow> bool" where
  "isWhite c = (c = 0x20 \<or> c = 0x09 \<or> c = 0x0A \<or> c = 0x0D)"

definition isDigit :: "16 word \<Rightarrow> bool" where
  "isDigit c = (0x30 \<le> c \<and> c \<le> 0x39)"

definition hexval :: "16 word \<Rightarrow> nat option" where
  "hexval c =
     (if 0x30 \<le> c \<and> c \<le> 0x39 then Some (unat c - 0x30)
      else if 0x41 \<le> c \<and> c \<le> 0x46 then Some (unat c - 0x37)
      else if 0x61 \<le> c \<and> c \<le> 0x66 then Some (unat c - 0x57)
      else None)"

text \<open>The code unit of a one-letter escape: \<open>\" \\ \/ \b \f \n \r \t\<close>.\<close>

definition simple_escape :: "16 word \<Rightarrow> 16 word option" where
  "simple_escape e =
     (if e = 0x22 then Some 0x22
      else if e = 0x5C then Some 0x5C
      else if e = 0x2F then Some 0x2F
      else if e = 0x62 then Some 0x08
      else if e = 0x66 then Some 0x0C
      else if e = 0x6E then Some 0x0A
      else if e = 0x72 then Some 0x0D
      else if e = 0x74 then Some 0x09
      else None)"

text \<open>
  A string, after its opening quote. The lexer is in one of three modes: between
  characters, after a backslash, or inside \<open>\uXXXX\<close> with some hex digits still to
  read and the value of those read. \<open>acc\<close> holds the code units read so far, latest
  first. The result is the string and the input after the closing quote. A raw code unit
  below \<open>0x20\<close> is refused.
\<close>

datatype string_mode = Plain | Escape | Hex nat nat

fun lex_string :: "string_mode \<Rightarrow> jsstring \<Rightarrow> jsstring \<Rightarrow> (jsstring \<times> jsstring) option" where
  "lex_string md acc [] = None"
| "lex_string Plain acc (c # cs) =
     (if c = 0x22 then Some (rev acc, cs)
      else if c = 0x5C then lex_string Escape acc cs
      else if c < 0x20 then None
      else lex_string Plain (c # acc) cs)"
| "lex_string Escape acc (c # cs) =
     (if c = 0x75 then lex_string (Hex 4 0) acc cs
      else
        (case simple_escape c of
           None \<Rightarrow> None
         | Some u \<Rightarrow> lex_string Plain (u # acc) cs))"
| "lex_string (Hex k n) acc (c # cs) =
     (case hexval c of
        None \<Rightarrow> None
      | Some h \<Rightarrow>
          if k \<le> 1 then lex_string Plain (of_nat (n * 16 + h) # acc) cs
          else lex_string (Hex (k - 1) (n * 16 + h)) acc cs)"

definition digits_value :: "jsstring \<Rightarrow> nat" where
  "digits_value ds = foldl (\<lambda>n c. 10 * n + (unat c - 0x30)) 0 ds"

text \<open>
  A number: \<open>-? (0 | [1-9][0-9]*) (. [0-9]+)? ([eE] [+-]? [0-9]+)?\<close>. The integer part
  takes every digit that follows, so a leading zero before another digit is refused here
  (the grammar ends the number after the zero, and no JSON text continues with a digit).
  \<open>lex_frac\<close> reads the optional fraction (its digits), \<open>lex_exp\<close> the optional
  exponent (its value).
\<close>

definition lex_frac :: "jsstring \<Rightarrow> (jsstring \<times> jsstring) option" where
  "lex_frac cs =
     (case cs of
        [] \<Rightarrow> Some ([], cs)
      | c # cs' \<Rightarrow>
          if c = 0x2E then
            (if takeWhile isDigit cs' = [] then None
             else Some (takeWhile isDigit cs', dropWhile isDigit cs'))
          else Some ([], cs))"

definition lex_exp :: "jsstring \<Rightarrow> (int \<times> jsstring) option" where
  "lex_exp cs =
     (case cs of
        [] \<Rightarrow> Some (0, cs)
      | c # cs' \<Rightarrow>
          if c = 0x65 \<or> c = 0x45 then
            (let neg = (cs' \<noteq> [] \<and> hd cs' = 0x2D);
                 ds = (if cs' \<noteq> [] \<and> (hd cs' = 0x2D \<or> hd cs' = 0x2B) then tl cs' else cs');
                 x = int (digits_value (takeWhile isDigit ds))
             in if takeWhile isDigit ds = [] then None
                else Some (if neg then - x else x, dropWhile isDigit ds))
          else Some (0, cs))"

definition lex_number :: "jsstring \<Rightarrow> (token \<times> jsstring) option" where
  "lex_number cs =
     (let neg = (cs \<noteq> [] \<and> hd cs = 0x2D);
          cs1 = (if neg then tl cs else cs);
          ip = takeWhile isDigit cs1
      in if ip = [] \<or> (hd ip = 0x30 \<and> 1 < length ip) then None
         else
           (case lex_frac (dropWhile isDigit cs1) of
              None \<Rightarrow> None
            | Some (fp, cs2) \<Rightarrow>
                (case lex_exp cs2 of
                   None \<Rightarrow> None
                 | Some (x, cs3) \<Rightarrow>
                     let m = int (digits_value (ip @ fp))
                     in Some (NumberTok (if neg then - m else m) (x - int (length fp)), cs3))))"


function lex :: "jsstring \<Rightarrow> token list option" where
  "lex [] = Some []"
| "lex (c # cs) =
     (if isWhite c then lex cs
      else if c = 0x7B then map_option (Cons LBrace) (lex cs)
      else if c = 0x7D then map_option (Cons RBrace) (lex cs)
      else if c = 0x5B then map_option (Cons LBracket) (lex cs)
      else if c = 0x5D then map_option (Cons RBracket) (lex cs)
      else if c = 0x3A then map_option (Cons Colon) (lex cs)
      else if c = 0x2C then map_option (Cons Comma) (lex cs)
      else if c = 0x22 then
        (case lex_string Plain [] cs of
           None \<Rightarrow> None
         | Some (s, rest) \<Rightarrow> map_option (Cons (StringTok s)) (lex rest))
      else if c = 0x2D \<or> isDigit c then
        (case lex_number (c # cs) of
           None \<Rightarrow> None
         | Some (t, rest) \<Rightarrow> map_option (Cons t) (lex rest))
      else if take 4 (c # cs) = ascii ''true'' then map_option (Cons TrueTok) (lex (drop 3 cs))
      else if take 5 (c # cs) = ascii ''false'' then map_option (Cons FalseTok) (lex (drop 4 cs))
      else if take 4 (c # cs) = ascii ''null'' then map_option (Cons NullTok) (lex (drop 3 cs))
      else None)"
  by pat_completeness auto
termination
proof -
  have str: "length r < length cs" if "lex_string md acc cs = Some (s, r)" for md acc cs s r
    using that
    by (induction md acc cs rule: lex_string.induct) (auto split: if_splits option.splits)
  have dw: "length (dropWhile isDigit xs) \<le> length xs" for xs :: jsstring
    by (simp add: length_dropWhile_le)
  have tw: "length (dropWhile isDigit xs) < length xs" if "takeWhile isDigit xs \<noteq> []"
    for xs :: jsstring
    using that by (cases xs) (auto simp: le_imp_less_Suc length_dropWhile_le split: if_splits)
  have frac: "length r \<le> length cs" if "lex_frac cs = Some (fp, r)" for cs fp r
    using that dw by (auto simp: lex_frac_def le_SucI split: list.splits if_splits)
  have exp: "length r \<le> length cs" if "lex_exp cs = Some (x, r)" for cs x r
    using that dw [of "tl (tl cs)"] dw [of "tl cs"]
    by (auto simp: lex_exp_def Let_def split: list.splits if_splits)
  have num: "length r < length cs" if a: "lex_number cs = Some (t, r)" for cs t r
  proof -
    let ?cs1 = "if cs \<noteq> [] \<and> hd cs = 0x2D then tl cs else cs"
    from a have ip: "takeWhile isDigit ?cs1 \<noteq> []"
      by (auto simp: lex_number_def Let_def split: if_splits)
    from a obtain fp cs2 x
      where f: "lex_frac (dropWhile isDigit ?cs1) = Some (fp, cs2)"
        and e: "lex_exp cs2 = Some (x, r)"
      by (auto simp: lex_number_def Let_def split: if_splits option.splits)
    have "length ?cs1 \<le> length cs" by simp
    with tw [OF ip] frac [OF f] exp [OF e] show ?thesis by linarith
  qed
  show ?thesis
    by (relation "measure length") (auto dest: str num)
qed

subsection \<open>Values\<close>

text \<open>
  The parser reads the tokens one at a time and keeps the containers that are still open
  on a stack, innermost first: an array with its elements so far, an object with its
  members so far, and an object member whose key is read and whose value is awaited
  (elements and members latest first).
\<close>

datatype frame =
    ArrayFrame "json list"
  | ObjectFrame "(jsstring \<times> json) list"
  | MemberFrame "(jsstring \<times> json) list" jsstring

text \<open>
  What the parser awaits: a value (\<open>True\<close>: or the \<open>]\<close> of the array just opened), a
  key (\<open>True\<close>: or the \<open>}\<close> of the object just opened), the colon after a key, a
  comma or the closing bracket after a value inside a container, or nothing more after
  the value of the whole text.
\<close>

datatype parser =
    WantValue bool "frame list"
  | WantKey bool "frame list"
  | WantColon "frame list"
  | AfterValue "frame list"
  | Finished json

text \<open>A value is complete: it is the whole text, an element, or a member's value.\<close>

fun complete :: "json \<Rightarrow> frame list \<Rightarrow> parser option" where
  "complete v [] = Some (Finished v)"
| "complete v (ArrayFrame es # st) = Some (AfterValue (ArrayFrame (v # es) # st))"
| "complete v (MemberFrame ms k # st) = Some (AfterValue (ObjectFrame ((k, v) # ms) # st))"
| "complete v (ObjectFrame ms # st) = None"

fun step :: "parser \<Rightarrow> token \<Rightarrow> parser option" where
  "step (WantValue b st) LBracket = Some (WantValue True (ArrayFrame [] # st))"
| "step (WantValue b st) LBrace = Some (WantKey True (ObjectFrame [] # st))"
| "step (WantValue b st) (StringTok s) = complete (JStr s) st"
| "step (WantValue b st) (NumberTok m e) = complete (JNum m e) st"
| "step (WantValue b st) TrueTok = complete (JBool True) st"
| "step (WantValue b st) FalseTok = complete (JBool False) st"
| "step (WantValue b st) NullTok = complete JNull st"
| "step (WantValue True (ArrayFrame [] # st)) RBracket = complete (JArr []) st"
| "step (WantKey b (ObjectFrame ms # st)) (StringTok k) = Some (WantColon (MemberFrame ms k # st))"
| "step (WantKey True (ObjectFrame ms # st)) RBrace = complete (JObj (rev ms)) st"
| "step (WantColon st) Colon = Some (WantValue False st)"
| "step (AfterValue (ArrayFrame es # st)) Comma = Some (WantValue False (ArrayFrame es # st))"
| "step (AfterValue (ArrayFrame es # st)) RBracket = complete (JArr (rev es)) st"
| "step (AfterValue (ObjectFrame ms # st)) Comma = Some (WantKey False (ObjectFrame ms # st))"
| "step (AfterValue (ObjectFrame ms # st)) RBrace = complete (JObj (rev ms)) st"
| "step p t = None"

fun steps :: "parser \<Rightarrow> token list \<Rightarrow> parser option" where
  "steps p [] = Some p"
| "steps p (t # ts) = (case step p t of None \<Rightarrow> None | Some p' \<Rightarrow> steps p' ts)"

text \<open>\<open>JSON.parse\<close> of a string: \<open>None\<close> is the \<open>SyntaxError\<close>.\<close>

definition JSON_parse :: "jsstring \<Rightarrow> json option" where
  "JSON_parse s =
     (case lex s of
        None \<Rightarrow> None
      | Some ts \<Rightarrow>
          (case steps (WantValue False []) ts of
             Some (Finished v) \<Rightarrow> Some v
           | _ \<Rightarrow> None))"

section \<open>The chat page\<close>

subsection \<open>State\<close>

text \<open>
  The content of a message of the conversation, as the handler stores it (how React
  draws it is outside the model). \<open>Bare v\<close> is a value put into the message as it is (\<open>content: message\<close>, and \<open>content: data.response\<close> in \<open>page.js\<close>).
  \<open>PlainText v\<close> is the element \<open><p>{content}</p>\<close> of the fallback.
  \<open>StructuredAnalysis\<close> is the \<open><div className="space-y-6">\<close> element with its four
  slots: the paragraph of the final answer and the paragraphs under the headings Risk
  Assessment, Documentation & Approvals and Procurement Strategy.
\<close>

datatype node =
    Bare jsval
  | PlainText jsval
  | StructuredAnalysis
      (finalAnswer: jsval)
      (riskAssessment: jsval)
      (documentationAndApprovals: jsval)
      (procurementStrategy: jsval)

datatype role = User | Assistant

record turn =
  role :: role
  content :: node

text \<open>
  The request \<open>fetch\<close> is called with. \<open>body\<close> is the object handed to
  \<open>JSON.stringify\<close>.
\<close>

record request =
  url :: jsstring
  http_method :: jsstring
  headers :: "(jsstring \<times> jsstring) list"
  body :: json

text \<open>\<open>console.log(v)\<close> and \<open>console.error(label, error)\<close>.\<close>

datatype diagnostic = Log json | Error jsstring js_error

text \<open>
  The five \<open>useState\<close> cells of \<open>Home\<close>, the calls of \<open>fetch\<close> made so far and the
  lines written to the console (both oldest first).
\<close>

record world =
  message :: jsstring
  conversations :: "turn list"
  assistants :: jsval
  selectedAssistant :: jsstring
  loading :: bool
  fetches :: "request list"
  console :: "diagnostic list"

text \<open>
  How the request ends: \<open>fetch\<close> rejects, or it resolves to a response with a status
  and a body text. \<open>fetch\<close> resolves whatever the status is.
\<close>

datatype fetch_result = Rejected | Response nat jsstring

subsection \<open>String.prototype.trim\<close>

text \<open>The code units \<open>trim\<close> strips: \<open>WhiteSpace\<close> and \<open>LineTerminator\<close>.\<close>

definition isSpace :: "16 word \<Rightarrow> bool" where
  "isSpace c =
     (c = 0x09 \<or> c = 0x0A \<or> c = 0x0B \<or> c = 0x0C \<or> c = 0x0D \<or> c = 0x20 \<or> c = 0xA0
      \<or> c = 0x1680 \<or> (0x2000 \<le> c \<and> c \<le> 0x200A) \<or> c = 0x2028 \<or> c = 0x2029
      \<or> c = 0x202F \<or> c = 0x205F \<or> c = 0x3000 \<or> c = 0xFEFF)"

definition trim :: "jsstring \<Rightarrow> jsstring" where
  "trim s = rev (dropWhile isSpace (rev (dropWhile isSpace s)))"

subsection \<open>sendMessage, up to the first await\<close>

text \<open>
  \<open>sendMessage\<close> runs in two parts: from the submit event to the call of \<open>fetch\<close>
  (\<open>sendMessage_start\<close>), and, once the request has ended, the rest
  (\<open>sendMessage_settle\<close>). The first part is the same in both files but for the
  address: the guard, \<open>setLoading(true)\<close>, the user's message appended, the request
  sent. \<open>e.preventDefault()\<close> changes nothing here.
\<close>

definition chatRequest :: "jsstring \<Rightarrow> world \<Rightarrow> request" where
  "chatRequest u w =
     \<lparr> url = u,
       http_method = ascii ''POST'',
       headers = [(ascii ''Content-Type'', ascii ''application/json''),
                  (ascii ''assistant-id'', selectedAssistant w)],
       body = JObj [(ascii ''user_id'', JStr (ascii ''default'')),
                    (ascii ''message'', JStr (message w))] \<rparr>"

definition sendMessage_sync :: "jsstring \<Rightarrow> world \<Rightarrow> world" where
  "sendMessage_sync u w =
     (if trim (message w) = [] \<or> selectedAssistant w = [] then w
      else w \<lparr> loading := True,
               conversations :=
                 conversations w @ [\<lparr> role = User, content = Bare (Value (JStr (message w))) \<rparr>],
               fetches := fetches w @ [chatRequest u w] \<rparr>)"

text \<open>The file with the interpreter posts to \<open>`${API_URL}/chat/`\<close>.\<close>

definition sendMessage_start :: "jsstring \<Rightarrow> world \<Rightarrow> world" where
  "sendMessage_start API_URL w = sendMessage_sync (API_URL @ ascii ''/chat/'') w"

text \<open>\<open>page.js\<close> posts to a fixed address.\<close>

definition page_sendMessage_start :: "world \<Rightarrow> world" where
  "page_sendMessage_start w = sendMessage_sync (ascii ''http://localhost:8000/chat/'') w"

subsection \<open>The reply as an element\<close>

text \<open>\<open>parsed.analysis?.analysis?.k || "N/A"\<close>: the read of \<open>parsed.analysis\<close> can throw.\<close>

definition detail :: "json \<Rightarrow> jsstring \<Rightarrow> js_error + jsval" where
  "detail parsed k =
     (case member (Value parsed) (ascii ''analysis'') of
        Inl err \<Rightarrow> Inl err
      | Inr a \<Rightarrow> Inr (or_else (opt_member (opt_member a (ascii ''analysis'')) k) (ascii ''N/A'')))"

text \<open>
  The element built from \<open>parsed\<close>; its children are evaluated in the order of the text.
\<close>

definition analysisElement :: "json \<Rightarrow> js_error + node" where
  "analysisElement parsed =
     (let fa = or_else (opt_member (opt_member (Value parsed) (ascii ''analysis''))
                          (ascii ''final_answer'')) (ascii ''Not provided'')
      in case detail parsed (ascii ''risk_assessment'') of
           Inl err \<Rightarrow> Inl err
         | Inr ra \<Rightarrow>
             (case detail parsed (ascii ''documentation_and_approvals'') of
                Inl err \<Rightarrow> Inl err
              | Inr da \<Rightarrow>
                  (case detail parsed (ascii ''procurement_strategy'') of
                     Inl err \<Rightarrow> Inl err
                   | Inr ps \<Rightarrow> Inr (StructuredAnalysis fa ra da ps))))"

text \<open>
  The inner \<open>try\<close>/\<open>catch\<close>, for \<open>reply\<close> the value of \<open>data.response\<close> that
  the variable \<open>content\<close> starts with: the element \<open>content\<close> ends with, and what
  was logged. \<open>content\<close> is still the reply when the \<open>catch\<close> runs.
\<close>

definition interpretResponse :: "(int \<Rightarrow> int \<Rightarrow> jsstring) \<Rightarrow> jsval \<Rightarrow> node \<times> diagnostic list" where
  "interpretResponse fmt reply =
     (case JSON_parse (ToString fmt reply) of
        None \<Rightarrow> (PlainText reply, [])
      | Some parsed \<Rightarrow>
          (case analysisElement parsed of
             Inl err \<Rightarrow> (PlainText reply, [Log parsed])
           | Inr el \<Rightarrow> (el, [Log parsed])))"

subsection \<open>sendMessage, after the request has ended\<close>

text \<open>\<open>await fetch(...)\<close>, then \<open>await response.json()\<close>.\<close>

fun receive :: "fetch_result \<Rightarrow> js_error + json" where
  "receive Rejected = Inl NetworkError"
| "receive (Response status text) =
     (case JSON_parse text of None \<Rightarrow> Inl SyntaxError | Some data \<Rightarrow> Inr data)"

text \<open>
  The body of the outer \<open>try\<close> after the request: what it logs, and the error it throws
  or the content of the assistant's message.
\<close>

definition sendMessage_try ::
  "(int \<Rightarrow> int \<Rightarrow> jsstring) \<Rightarrow> fetch_result \<Rightarrow> diagnostic list \<times> (js_error + node)" where
  "sendMessage_try fmt r =
     (case receive r of
        Inl err \<Rightarrow> ([], Inl err)
      | Inr data \<Rightarrow>
          (case member (Value data) (ascii ''response'') of
             Inl err \<Rightarrow> ([], Inl err)
           | Inr reply \<Rightarrow>
               (let (el, logs) = interpretResponse fmt reply in (logs, Inr el))))"


text \<open>
  The rest of the handler around that body: the assistant's message appended, or the
  error caught and logged; then the \<open>finally\<close> block.
\<close>

definition settle :: "diagnostic list \<times> (js_error + node) \<Rightarrow> world \<Rightarrow> world" where
  "settle res w =
     (let w1 = w \<lparr> console := console w @ fst res \<rparr>;
          w2 = (case snd res of
                  Inl err \<Rightarrow>
                    w1 \<lparr> console := console w1 @ [Error (ascii ''Error sending message:'') err] \<rparr>
                | Inr el \<Rightarrow>
                    w1 \<lparr> conversations :=
                           conversations w1 @ [\<lparr> role = Assistant, content = el \<rparr>] \<rparr>)
      in w2 \<lparr> loading := False, message := [] \<rparr>)"

definition sendMessage_settle :: "(int \<Rightarrow> int \<Rightarrow> jsstring) \<Rightarrow> fetch_result \<Rightarrow> world \<Rightarrow> world" where
  "sendMessage_settle fmt r w = settle (sendMessage_try fmt r) w"


subsection \<open>The form\<close>

text \<open>
  The textarea and the submit button both carry
  \<open>disabled={loading || !selectedAssistant}\<close>.
\<close>

definition disabled :: "world \<Rightarrow> bool" where
  "disabled w = (loading w \<or> selectedAssistant w = [])"

text \<open>
  What the user can do: type into the textarea (\<open>onChange\<close>, which sets the message),
  pick an assistant in the select (\<open>onValueChange\<close>), submit the form (\<open>onSubmit\<close>,
  which is \<open>sendMessage\<close>).
\<close>

datatype event = Change jsstring | ValueChange jsstring | Submit

text \<open>
  Modelled from the spec: the components \<open>Button\<close> and \<open>Textarea\<close>
  (\<open>@/components/ui/button\<close>, \<open>@/components/ui/textarea\<close>) are not among the
  sources; only their use on the page is. The spec has the pending guard disable new
  submissions while a request is outstanding, a submit in that state being a no-op. So
  a disabled control sends no event: \<open>onChange\<close> and \<open>onSubmit\<close> (the button is the
  only way to submit the form) run only while the controls are enabled. The select is
  never disabled. \<open>u\<close> is the address the page posts to.
\<close>

fun handle :: "jsstring \<Rightarrow> world \<Rightarrow> event \<Rightarrow> world" where
  "handle u w (Change t) = (if disabled w then w else w \<lparr> message := t \<rparr>)"
| "handle u w (ValueChange v) = w \<lparr> selectedAssistant := v \<rparr>"
| "handle u w Submit = (if disabled w then w else sendMessage_sync u w)"

subsection \<open>Examples\<close>

text \<open>
  The number formatter of the examples. None of them has a number to print, so what it
  returns is never read.
\<close>

definition noFormat :: "int \<Rightarrow> int \<Rightarrow> jsstring" where
  "noFormat m e = []"

text \<open>The element whose four slots all hold their placeholder.\<close>

definition placeholders :: node where
  "placeholders =
     StructuredAnalysis (Value (JStr (ascii ''Not provided''))) (Value (JStr (ascii ''N/A'')))
       (Value (JStr (ascii ''N/A''))) (Value (JStr (ascii ''N/A'')))"

text \<open>The session of the spec's scenario: one assistant, selected, and a message typed.\<close>

definition example_world :: world where
  "example_world =
     \<lparr> message = ascii ''hello'',
       conversations = [],
       assistants =
         Value (JArr [JObj [(ascii ''id'', JStr (ascii ''a1'')),
                            (ascii ''name'', JStr (ascii ''Legal''))]]),
       selectedAssistant = ascii ''a1'',
       loading = False,
       fetches = [],
       console = [] \<rparr>"

text \<open>Replies with all four fields: every value non-empty, and the final answer empty.\<close>

definition reply_full :: jsstring where
  "reply_full =
     ascii ''{\"analysis\":{\"final_answer\":\"Approve\",\"analysis\":{\"risk_assessment\":\"Low\",\"documentation_and_approvals\":\"Signed\",\"procurement_strategy\":\"Tender\"}}}''"

definition reply_empty_answer :: jsstring where
  "reply_empty_answer =
     ascii ''{\"analysis\":{\"final_answer\":\"\",\"analysis\":{\"risk_assessment\":\"Low\",\"documentation_and_approvals\":\"Signed\",\"procurement_strategy\":\"Tender\"}}}''"

definition details_full :: json where
  "details_full =
     JObj [(ascii ''risk_assessment'', JStr (ascii ''Low'')),
           (ascii ''documentation_and_approvals'', JStr (ascii ''Signed'')),
           (ascii ''procurement_strategy'', JStr (ascii ''Tender''))]"

text \<open>A reply whose risk assessment is the empty string.\<close>

definition reply_empty_risk :: jsstring where
  "reply_empty_risk =
     ascii ''{\"analysis\":{\"final_answer\":\"Approve\",\"analysis\":{\"risk_assessment\":\"\"}}}''"

text \<open>The reply of the spec's scenario: a final answer and a risk assessment only.\<close>

definition reply_partial :: jsstring where
  "reply_partial =
     ascii ''{\"analysis\":{\"final_answer\":\"Approve\",\"analysis\":{\"risk_assessment\":\"Low\"}}}''"

text \<open>A document with no \<open>analysis\<close>, and the body of an error response.\<close>

definition reply_other :: jsstring where
  "reply_other = ascii ''{\"answer\":\"hi\"}''"

definition error_body :: jsstring where
  "error_body = ascii ''{\"detail\":\"Internal Server Error\"}''"

section \<open>Properties\<close>

subsection \<open>Evaluation and property reads\<close>

lemmas parse_eval =
  JSON_parse_def ascii_def isWhite_def isDigit_def lex_number_def lex_frac_def lex_exp_def
  simple_escape_def hexval_def digits_value_def

lemma member_value: "v \<noteq> JNull \<Longrightarrow> member (Value v) k = Inr (getProp v k)"
  by (cases v) simp_all

lemma opt_member_value: "opt_member (Value v) k = getProp v k"
  by (cases v) simp_all

lemma getProp_value_not_null: "getProp v k = Value x \<Longrightarrow> v \<noteq> JNull"
  by (cases v) simp_all

subsection \<open>The reply as an element\<close>

lemma analysisElement_null: "analysisElement JNull = Inl TypeError"
  by (simp add: analysisElement_def detail_def)

lemma analysisElement_value:
  "v \<noteq> JNull \<Longrightarrow>
   analysisElement v =
     Inr (StructuredAnalysis
       (or_else (opt_member (getProp v (ascii ''analysis'')) (ascii ''final_answer''))
          (ascii ''Not provided''))
       (or_else (opt_member (opt_member (getProp v (ascii ''analysis'')) (ascii ''analysis''))
          (ascii ''risk_assessment'')) (ascii ''N/A''))
       (or_else (opt_member (opt_member (getProp v (ascii ''analysis'')) (ascii ''analysis''))
          (ascii ''documentation_and_approvals'')) (ascii ''N/A''))
       (or_else (opt_member (opt_member (getProp v (ascii ''analysis'')) (ascii ''analysis''))
          (ascii ''procurement_strategy'')) (ascii ''N/A'')))"
  by (simp add: analysisElement_def detail_def member_value opt_member_value)

lemma interpretResponse_string:
  "interpretResponse fmt (Value (JStr s)) =
     (case JSON_parse s of
        None \<Rightarrow> (PlainText (Value (JStr s)), [])
      | Some v \<Rightarrow>
          if v = JNull then (PlainText (Value (JStr s)), [Log v])
          else
            (StructuredAnalysis
               (or_else (opt_member (getProp v (ascii ''analysis'')) (ascii ''final_answer''))
                  (ascii ''Not provided''))
               (or_else (opt_member (opt_member (getProp v (ascii ''analysis'')) (ascii ''analysis''))
                  (ascii ''risk_assessment'')) (ascii ''N/A''))
               (or_else (opt_member (opt_member (getProp v (ascii ''analysis'')) (ascii ''analysis''))
                  (ascii ''documentation_and_approvals'')) (ascii ''N/A''))
               (or_else (opt_member (opt_member (getProp v (ascii ''analysis'')) (ascii ''analysis''))
                  (ascii ''procurement_strategy'')) (ascii ''N/A'')),
             [Log v]))"
  by (simp add: interpretResponse_def analysisElement_null analysisElement_value
      split: option.splits)

lemma parse_hi_there: "JSON_parse (ascii ''hi there'') = None"
  by (simp add: parse_eval)

lemma parse_null: "JSON_parse (ascii ''null'') = Some JNull"
  by (simp add: parse_eval)

lemma parse_empty_object: "JSON_parse (ascii ''{}'') = Some (JObj [])"
  by (simp add: parse_eval)

lemma parse_number: "JSON_parse (ascii ''5'') = Some (JNum 5 0)"
  by (simp add: parse_eval)

lemma parse_true: "JSON_parse (ascii ''true'') = Some (JBool True)"
  by (simp add: parse_eval)

lemma parse_quoted: "JSON_parse (ascii ''\"hi\"'') = Some (JStr (ascii ''hi''))"
  by (simp add: parse_eval)

lemma parse_reply_other:
  "JSON_parse reply_other = Some (JObj [(ascii ''answer'', JStr (ascii ''hi''))])"
  by (simp add: reply_other_def parse_eval)

lemma parse_error_body:
  "JSON_parse error_body = Some (JObj [(ascii ''detail'', JStr (ascii ''Internal Server Error''))])"
  by (simp add: error_body_def parse_eval)

lemma parse_reply_full:
  "JSON_parse reply_full =
     Some (JObj [(ascii ''analysis'',
                  JObj [(ascii ''final_answer'', JStr (ascii ''Approve'')),
                        (ascii ''analysis'', details_full)])])"
  by (simp add: reply_full_def details_full_def parse_eval)

lemma parse_reply_empty_answer:
  "JSON_parse reply_empty_answer =
     Some (JObj [(ascii ''analysis'',
                  JObj [(ascii ''final_answer'', JStr []),
                        (ascii ''analysis'', details_full)])])"
  by (simp add: reply_empty_answer_def details_full_def parse_eval)

lemma parse_reply_empty_risk:
  "JSON_parse reply_empty_risk =
     Some (JObj [(ascii ''analysis'',
                  JObj [(ascii ''final_answer'', JStr (ascii ''Approve'')),
                        (ascii ''analysis'', JObj [(ascii ''risk_assessment'', JStr [])])])])"
  by (simp add: reply_empty_risk_def parse_eval)

lemma parse_reply_partial:
  "JSON_parse reply_partial =
     Some (JObj [(ascii ''analysis'',
                  JObj [(ascii ''final_answer'', JStr (ascii ''Approve'')),
                        (ascii ''analysis'', JObj [(ascii ''risk_assessment'', JStr (ascii ''Low''))])])])"
  by (simp add: reply_partial_def parse_eval)

text \<open>
  The spec's scenario: the final answer and the risk assessment are shown, the two
  fields that are missing as \<open>N/A\<close>.
\<close>

lemma interpretResponse_reply_partial:
  "fst (interpretResponse fmt (Value (JStr reply_partial))) =
     StructuredAnalysis (Value (JStr (ascii ''Approve''))) (Value (JStr (ascii ''Low'')))
       (Value (JStr (ascii ''N/A''))) (Value (JStr (ascii ''N/A'')))"
  by (simp add: interpretResponse_string parse_reply_partial or_else_def)
    (simp add: ascii_def)

text \<open>
  Claim C1, as amended. A reply string that does not parse, or that parses to \<open>null\<close>,
  is shown as plain text equal to the string. A reply string that parses to any other
  document is shown as the structured analysis, whether or not the document has the
  nested analysis object; without it, all four slots hold their placeholder.
\<close>

theorem plain_text_iff_no_document:
  "(JSON_parse s = None \<or> JSON_parse s = Some JNull \<longrightarrow>
      fst (interpretResponse fmt (Value (JStr s))) = PlainText (Value (JStr s))) \<and>
   (\<forall>v. JSON_parse s = Some v \<and> v \<noteq> JNull \<longrightarrow>
      (\<exists>a b c d. fst (interpretResponse fmt (Value (JStr s))) = StructuredAnalysis a b c d)) \<and>
   (\<forall>v. JSON_parse s = Some v \<and> v \<noteq> JNull \<and> getProp v (ascii ''analysis'') = Undefined \<longrightarrow>
      fst (interpretResponse fmt (Value (JStr s))) = placeholders)"
  by (auto simp: interpretResponse_string placeholders_def or_else_def)

theorem plain_text_iff_no_document_witness:
  "fst (interpretResponse noFormat (Value (JStr (ascii ''hi there'')))) =
     PlainText (Value (JStr (ascii ''hi there''))) \<and>
   fst (interpretResponse noFormat (Value (JStr (ascii ''null'')))) =
     PlainText (Value (JStr (ascii ''null''))) \<and>
   (\<exists>a b c d. fst (interpretResponse noFormat (Value (JStr reply_partial))) =
      StructuredAnalysis a b c d) \<and>
   fst (interpretResponse noFormat (Value (JStr (ascii ''{}'')))) = placeholders"
  using plain_text_iff_no_document [of "ascii ''hi there''" noFormat]
    plain_text_iff_no_document [of "ascii ''null''" noFormat]
    plain_text_iff_no_document [of reply_partial noFormat]
    plain_text_iff_no_document [of "ascii ''{}''" noFormat]
    parse_hi_there parse_null parse_reply_partial parse_empty_object
  by simp

text \<open>
  Claim C1 as stated fails: the reply \<open>{"answer":"hi"}\<close> parses, has no \<open>analysis\<close>,
  and is shown as the structured analysis with its four placeholders, not as plain text.
\<close>

theorem missing_analysis_counterexample:
  "JSON_parse reply_other = Some (JObj [(ascii ''answer'', JStr (ascii ''hi''))]) \<and>
   getProp (JObj [(ascii ''answer'', JStr (ascii ''hi''))]) (ascii ''analysis'') = Undefined \<and>
   fst (interpretResponse noFormat (Value (JStr reply_other))) = placeholders \<and>
   fst (interpretResponse noFormat (Value (JStr reply_other))) \<noteq> PlainText (Value (JStr reply_other))"
  by (simp add: interpretResponse_string parse_reply_other placeholders_def or_else_def)
    (simp add: ascii_def)

text \<open>
  Claim C9. A reply string that parses to a value other than \<open>null\<close> which is not an
  object with an \<open>analysis\<close> key (a number, a boolean, a quoted string, an array, an
  object without the key) is shown as the structured analysis with every slot at its
  placeholder, and the parsed value is logged. Plain text is shown only when the parse
  throws or the value is \<open>null\<close>, whose property read throws.
\<close>

theorem placeholders_without_analysis_key:
  "(\<forall>v. JSON_parse s = Some v \<and> v \<noteq> JNull \<and> getProp v (ascii ''analysis'') = Undefined \<longrightarrow>
      interpretResponse fmt (Value (JStr s)) = (placeholders, [Log v])) \<and>
   ((\<exists>x. fst (interpretResponse fmt (Value (JStr s))) = PlainText x) \<longleftrightarrow>
      (JSON_parse s = None \<or> JSON_parse s = Some JNull))"
  by (auto simp: interpretResponse_string placeholders_def or_else_def split: option.splits)

theorem placeholders_without_analysis_key_witness:
  "interpretResponse noFormat (Value (JStr (ascii ''5''))) = (placeholders, [Log (JNum 5 0)]) \<and>
   interpretResponse noFormat (Value (JStr (ascii ''true''))) =
     (placeholders, [Log (JBool True)]) \<and>
   interpretResponse noFormat (Value (JStr (ascii ''\"hi\"''))) =
     (placeholders, [Log (JStr (ascii ''hi''))]) \<and>
   (\<exists>x. fst (interpretResponse noFormat (Value (JStr (ascii ''null'')))) = PlainText x) \<and>
   (\<exists>x. fst (interpretResponse noFormat (Value (JStr (ascii ''hi there'')))) = PlainText x)"
  using placeholders_without_analysis_key [of "ascii ''5''" noFormat]
    placeholders_without_analysis_key [of "ascii ''true''" noFormat]
    placeholders_without_analysis_key [of "ascii ''\"hi\"''" noFormat]
    placeholders_without_analysis_key [of "ascii ''null''" noFormat]
    placeholders_without_analysis_key [of "ascii ''hi there''" noFormat]
    parse_number parse_true parse_quoted parse_null parse_hi_there
  by simp

text \<open>
  Claim C6, as amended. When a reply string parses to a document that has all four
  fields (\<open>analysis.final_answer\<close> and, under \<open>analysis.analysis\<close>,
  \<open>risk_assessment\<close>, \<open>documentation_and_approvals\<close>, \<open>procurement_strategy\<close>)
  and every one of the four values is truthy (for a string: not empty), the reply is
  shown as the structured analysis whose four slots hold those values as they are.
\<close>

theorem four_truthy_fields_verbatim:
  assumes "JSON_parse s = Some v"
    and "getProp v (ascii ''analysis'') = Value a"
    and "getProp a (ascii ''final_answer'') = Value fa"
    and "getProp a (ascii ''analysis'') = Value d"
    and "getProp d (ascii ''risk_assessment'') = Value ra"
    and "getProp d (ascii ''documentation_and_approvals'') = Value da"
    and "getProp d (ascii ''procurement_strategy'') = Value ps"
    and "truthy (Value fa)" and "truthy (Value ra)" and "truthy (Value da)" and "truthy (Value ps)"
  shows "interpretResponse fmt (Value (JStr s)) =
           (StructuredAnalysis (Value fa) (Value ra) (Value da) (Value ps), [Log v])"
proof -
  have "v \<noteq> JNull"
    using assms(2) by (rule getProp_value_not_null)
  then show ?thesis
    using assms by (simp add: interpretResponse_string opt_member_value or_else_def)
qed

theorem four_truthy_fields_verbatim_witness:
  "interpretResponse noFormat (Value (JStr reply_full)) =
     (StructuredAnalysis (Value (JStr (ascii ''Approve''))) (Value (JStr (ascii ''Low'')))
        (Value (JStr (ascii ''Signed''))) (Value (JStr (ascii ''Tender''))),
      [Log (JObj [(ascii ''analysis'',
                   JObj [(ascii ''final_answer'', JStr (ascii ''Approve'')),
                         (ascii ''analysis'', details_full)])])])"
proof (rule four_truthy_fields_verbatim [OF parse_reply_full])
  show "getProp (JObj [(ascii ''analysis'',
                        JObj [(ascii ''final_answer'', JStr (ascii ''Approve'')),
                              (ascii ''analysis'', details_full)])]) (ascii ''analysis'') =
          Value (JObj [(ascii ''final_answer'', JStr (ascii ''Approve'')),
                       (ascii ''analysis'', details_full)])"
    by simp
  show "getProp (JObj [(ascii ''final_answer'', JStr (ascii ''Approve'')),
                       (ascii ''analysis'', details_full)]) (ascii ''final_answer'') =
          Value (JStr (ascii ''Approve''))"
    by (simp add: ascii_def)
  show "getProp (JObj [(ascii ''final_answer'', JStr (ascii ''Approve'')),
                       (ascii ''analysis'', details_full)]) (ascii ''analysis'') =
          Value details_full"
    by (simp add: ascii_def)
  show "getProp details_full (ascii ''risk_assessment'') = Value (JStr (ascii ''Low''))"
    by (simp add: details_full_def ascii_def)
  show "getProp details_full (ascii ''documentation_and_approvals'') =
          Value (JStr (ascii ''Signed''))"
    by (simp add: details_full_def ascii_def)
  show "getProp details_full (ascii ''procurement_strategy'') = Value (JStr (ascii ''Tender''))"
    by (simp add: details_full_def ascii_def)
qed (simp_all add: ascii_def)

text \<open>
  Claim C6 as stated fails: \<open>reply_empty_answer\<close> has all four fields, its final answer
  the empty string, and the first slot holds \<open>Not provided\<close>, not the empty string.
\<close>

theorem empty_final_answer_counterexample:
  "JSON_parse reply_empty_answer =
     Some (JObj [(ascii ''analysis'',
                  JObj [(ascii ''final_answer'', JStr []), (ascii ''analysis'', details_full)])]) \<and>
   fst (interpretResponse noFormat (Value (JStr reply_empty_answer))) =
     StructuredAnalysis (Value (JStr (ascii ''Not provided''))) (Value (JStr (ascii ''Low'')))
       (Value (JStr (ascii ''Signed''))) (Value (JStr (ascii ''Tender''))) \<and>
   finalAnswer (fst (interpretResponse noFormat (Value (JStr reply_empty_answer)))) \<noteq>
     Value (JStr [])"
  by (simp add: interpretResponse_string parse_reply_empty_answer or_else_def details_full_def)
    (simp add: ascii_def)

text \<open>
  Claim C10. When a reply string parses to a document with the \<open>analysis\<close> object, a
  field that is present with a falsy value, the empty string in particular, is shown as
  its placeholder: \<open>Not provided\<close> for the final answer, \<open>N/A\<close> for the three details.
\<close>

theorem falsy_field_shown_as_placeholder:
  assumes "JSON_parse s = Some v"
    and "getProp v (ascii ''analysis'') = Value a"
  shows "\<not> truthy (Value (JStr [])) \<and>
         (\<exists>p q r t. fst (interpretResponse fmt (Value (JStr s))) = StructuredAnalysis p q r t) \<and>
         (\<forall>x. getProp a (ascii ''final_answer'') = Value x \<and> \<not> truthy (Value x) \<longrightarrow>
            finalAnswer (fst (interpretResponse fmt (Value (JStr s)))) =
              Value (JStr (ascii ''Not provided''))) \<and>
         (\<forall>d x. getProp a (ascii ''analysis'') = Value d \<and>
                getProp d (ascii ''risk_assessment'') = Value x \<and> \<not> truthy (Value x) \<longrightarrow>
            riskAssessment (fst (interpretResponse fmt (Value (JStr s)))) =
              Value (JStr (ascii ''N/A''))) \<and>
         (\<forall>d x. getProp a (ascii ''analysis'') = Value d \<and>
                getProp d (ascii ''documentation_and_approvals'') = Value x \<and>
                \<not> truthy (Value x) \<longrightarrow>
            documentationAndApprovals (fst (interpretResponse fmt (Value (JStr s)))) =
              Value (JStr (ascii ''N/A''))) \<and>
         (\<forall>d x. getProp a (ascii ''analysis'') = Value d \<and>
                getProp d (ascii ''procurement_strategy'') = Value x \<and> \<not> truthy (Value x) \<longrightarrow>
            procurementStrategy (fst (interpretResponse fmt (Value (JStr s)))) =
              Value (JStr (ascii ''N/A'')))"
proof -
  have "v \<noteq> JNull"
    using assms(2) by (rule getProp_value_not_null)
  then show ?thesis
    using assms by (simp add: interpretResponse_string opt_member_value or_else_def)
qed

theorem falsy_field_shown_as_placeholder_witness:
  "riskAssessment (fst (interpretResponse noFormat (Value (JStr reply_empty_risk)))) =
     Value (JStr (ascii ''N/A''))"
proof -
  let ?d = "JObj [(ascii ''risk_assessment'', JStr [])]"
  let ?a = "JObj [(ascii ''final_answer'', JStr (ascii ''Approve'')), (ascii ''analysis'', ?d)]"
  have a: "getProp (JObj [(ascii ''analysis'', ?a)]) (ascii ''analysis'') = Value ?a"
    by simp
  have d: "getProp ?a (ascii ''analysis'') = Value ?d"
    by (simp add: ascii_def)
  have x: "getProp ?d (ascii ''risk_assessment'') = Value (JStr [])"
    by simp
  show ?thesis
    using falsy_field_shown_as_placeholder [OF parse_reply_empty_risk a, of noFormat] d x
    by simp
qed

subsection \<open>The handler\<close>

lemma sendMessage_sync_accepted:
  "trim (message w) \<noteq> [] \<Longrightarrow> selectedAssistant w \<noteq> [] \<Longrightarrow>
   sendMessage_sync u w =
     w \<lparr> loading := True,
         conversations :=
           conversations w @ [\<lparr> role = User, content = Bare (Value (JStr (message w))) \<rparr>],
         fetches := fetches w @ [chatRequest u w] \<rparr>"
  by (simp add: sendMessage_sync_def)

lemma sendMessage_try_outcome:
  "snd (sendMessage_try fmt r) =
     (case r of
        Rejected \<Rightarrow> Inl NetworkError
      | Response st t \<Rightarrow>
          (case JSON_parse t of
             None \<Rightarrow> Inl SyntaxError
           | Some d \<Rightarrow>
               if d = JNull then Inl TypeError
               else Inr (fst (interpretResponse fmt (getProp d (ascii ''response''))))))"
  by (auto simp: sendMessage_try_def member_value split_def Let_def
      split: fetch_result.splits option.splits)

lemma sendMessage_try_logs:
  "fst (sendMessage_try fmt r) =
     (case r of
        Rejected \<Rightarrow> []
      | Response st t \<Rightarrow>
          (case JSON_parse t of
             None \<Rightarrow> []
           | Some d \<Rightarrow>
               if d = JNull then []
               else snd (interpretResponse fmt (getProp d (ascii ''response'')))))"
  by (auto simp: sendMessage_try_def member_value split_def Let_def
      split: fetch_result.splits option.splits)


lemma settle_conversations:
  "conversations (settle res w) =
     conversations w @
       (case snd res of Inl err \<Rightarrow> [] | Inr el \<Rightarrow> [\<lparr> role = Assistant, content = el \<rparr>])"
  by (simp add: settle_def Let_def split: sum.splits)

lemma settle_console:
  "console (settle res w) =
     console w @ fst res @
       (case snd res of
          Inl err \<Rightarrow> [Error (ascii ''Error sending message:'') err]
        | Inr el \<Rightarrow> [])"
  by (simp add: settle_def Let_def split: sum.splits)


lemma trim_hello: "trim (ascii ''hello'') = ascii ''hello''"
  by (simp add: trim_def isSpace_def ascii_def)

lemma trim_blank: "trim (ascii ''   '') = []"
  by (simp add: trim_def isSpace_def ascii_def)

lemma ascii_not_empty: "ascii ''a1'' \<noteq> []" "ascii ''hello'' \<noteq> []"
  by (simp_all add: ascii_def)

text \<open>
  Claim C2, as amended. An exchange fails when \<open>fetch\<close> rejects, when the body of the
  response is not a JSON document, or when it is the JSON value \<open>null\<close>. Then no
  assistant turn is appended, the conversation is left as it was (the user's turn stays),
  and the failure is logged, once, with \<open>console.error\<close>. The status of the response is
  not read: a response of any status whose body is another JSON document is handled as a
  success, and one assistant turn is appended.
\<close>

theorem failed_exchange_only_logged:
  "(r = Rejected \<longrightarrow>
      conversations (sendMessage_settle fmt r w) = conversations w \<and>
      console (sendMessage_settle fmt r w) =
        console w @ [Error (ascii ''Error sending message:'') NetworkError]) \<and>
   (\<forall>st t. r = Response st t \<and> JSON_parse t = None \<longrightarrow>
      conversations (sendMessage_settle fmt r w) = conversations w \<and>
      console (sendMessage_settle fmt r w) =
        console w @ [Error (ascii ''Error sending message:'') SyntaxError]) \<and>
   (\<forall>st t. r = Response st t \<and> JSON_parse t = Some JNull \<longrightarrow>
      conversations (sendMessage_settle fmt r w) = conversations w \<and>
      console (sendMessage_settle fmt r w) =
        console w @ [Error (ascii ''Error sending message:'') TypeError]) \<and>
   (\<forall>st t d. r = Response st t \<and> JSON_parse t = Some d \<and> d \<noteq> JNull \<longrightarrow>
      (\<exists>el. conversations (sendMessage_settle fmt r w) =
              conversations w @ [\<lparr> role = Assistant, content = el \<rparr>]))"
  unfolding sendMessage_settle_def settle_conversations settle_console
  by (auto simp: sendMessage_try_outcome sendMessage_try_logs)

theorem failed_exchange_only_logged_witness:
  "conversations (sendMessage_settle noFormat Rejected (sendMessage_start (ascii ''http://api'') example_world)) =
     [\<lparr> role = User, content = Bare (Value (JStr (ascii ''hello''))) \<rparr>] \<and>
   console (sendMessage_settle noFormat Rejected (sendMessage_start (ascii ''http://api'') example_world)) =
     [Error (ascii ''Error sending message:'') NetworkError] \<and>
   conversations (sendMessage_settle noFormat (Response 502 (ascii ''hi there''))
       (sendMessage_start (ascii ''http://api'') example_world)) =
     [\<lparr> role = User, content = Bare (Value (JStr (ascii ''hello''))) \<rparr>] \<and>
   conversations (sendMessage_settle noFormat (Response 200 (ascii ''null''))
       (sendMessage_start (ascii ''http://api'') example_world)) =
     [\<lparr> role = User, content = Bare (Value (JStr (ascii ''hello''))) \<rparr>] \<and>
   (\<exists>el. conversations (sendMessage_settle noFormat (Response 500 error_body)
       (sendMessage_start (ascii ''http://api'') example_world)) =
     [\<lparr> role = User, content = Bare (Value (JStr (ascii ''hello''))) \<rparr>,
      \<lparr> role = Assistant, content = el \<rparr>])"
proof -
  let ?w = "sendMessage_start (ascii ''http://api'') example_world"
  have w: "conversations ?w = [\<lparr> role = User, content = Bare (Value (JStr (ascii ''hello''))) \<rparr>]"
    "console ?w = []"
    by (simp_all add: sendMessage_start_def sendMessage_sync_accepted example_world_def trim_hello
        ascii_not_empty)
  show ?thesis
    using failed_exchange_only_logged [of Rejected noFormat ?w]
      failed_exchange_only_logged [of "Response 502 (ascii ''hi there'')" noFormat ?w]
      failed_exchange_only_logged [of "Response 200 (ascii ''null'')" noFormat ?w]
      failed_exchange_only_logged [of "Response 500 error_body" noFormat ?w]
      parse_hi_there parse_null parse_error_body
    by (simp add: w)
qed

text \<open>
  Claim C2 as stated fails: on a response with status 500 and the body
  \<open>{"detail":"Internal Server Error"}\<close> the handler appends an assistant turn (an empty
  paragraph, \<open>data.response\<close> being \<open>undefined\<close>) and logs no error.
\<close>

theorem error_status_counterexample:
  "conversations
     (sendMessage_settle noFormat (Response 500 error_body)
        (sendMessage_start (ascii ''http://api'') example_world)) =
     [\<lparr> role = User, content = Bare (Value (JStr (ascii ''hello''))) \<rparr>,
      \<lparr> role = Assistant, content = PlainText Undefined \<rparr>] \<and>
   console
     (sendMessage_settle noFormat (Response 500 error_body)
        (sendMessage_start (ascii ''http://api'') example_world)) = []"
proof -
  have u: "JSON_parse (ascii ''undefined'') = None"
    by (simp add: parse_eval)
  have g: "getProp (JObj [(ascii ''detail'', JStr (ascii ''Internal Server Error''))])
             (ascii ''response'') = Undefined"
    by (simp add: ascii_def)
  have i: "interpretResponse noFormat Undefined = (PlainText Undefined, [])"
    by (simp add: interpretResponse_def u)
  show ?thesis
    by (simp add: sendMessage_settle_def settle_conversations settle_console
        sendMessage_try_outcome sendMessage_try_logs parse_error_body g i
        sendMessage_start_def sendMessage_sync_accepted example_world_def trim_hello ascii_not_empty
        del: getProp.simps)
qed

text \<open>
  Claim C4. When the message is empty or only white space, or no assistant is selected,
  \<open>sendMessage\<close> (of either file) returns at its guard: every cell of the state, the
  conversation among them, is as before, nothing is logged and no request is sent.
\<close>

theorem refused_submit_changes_nothing:
  assumes "trim (message w) = [] \<or> selectedAssistant w = []"
  shows "sendMessage_start API_URL w = w \<and> page_sendMessage_start w = w"
  using assms by (auto simp: sendMessage_start_def page_sendMessage_start_def sendMessage_sync_def)

theorem refused_submit_changes_nothing_witness:
  "sendMessage_start (ascii ''http://api'') (example_world \<lparr> message := ascii ''   '' \<rparr>) =
     example_world \<lparr> message := ascii ''   '' \<rparr> \<and>
   page_sendMessage_start (example_world \<lparr> message := ascii ''   '' \<rparr>) =
     example_world \<lparr> message := ascii ''   '' \<rparr> \<and>
   sendMessage_start (ascii ''http://api'') (example_world \<lparr> selectedAssistant := [] \<rparr>) =
     example_world \<lparr> selectedAssistant := [] \<rparr> \<and>
   page_sendMessage_start (example_world \<lparr> selectedAssistant := [] \<rparr>) =
     example_world \<lparr> selectedAssistant := [] \<rparr>"
  using refused_submit_changes_nothing
      [of "example_world \<lparr> message := ascii ''   '' \<rparr>" "ascii ''http://api''"]
    refused_submit_changes_nothing
      [of "example_world \<lparr> selectedAssistant := [] \<rparr>" "ascii ''http://api''"]
    trim_blank
  by simp

text \<open>
  Claim C7. When the message is not empty after trimming and an assistant is selected,
  the part of \<open>sendMessage\<close> that runs before the request ends appends exactly one user
  turn, whose content is the message as typed (not trimmed), sets \<open>loading\<close>, and sends
  one request carrying the same text. This holds for both files.
\<close>

theorem accepted_submit_appends_user_turn:
  assumes "trim (message w) \<noteq> []" and "selectedAssistant w \<noteq> []"
  shows "conversations (sendMessage_start API_URL w) =
           conversations w @ [\<lparr> role = User, content = Bare (Value (JStr (message w))) \<rparr>] \<and>
         loading (sendMessage_start API_URL w) \<and>
         fetches (sendMessage_start API_URL w) =
           fetches w @ [chatRequest (API_URL @ ascii ''/chat/'') w] \<and>
         conversations (page_sendMessage_start w) =
           conversations w @ [\<lparr> role = User, content = Bare (Value (JStr (message w))) \<rparr>] \<and>
         loading (page_sendMessage_start w) \<and>
         fetches (page_sendMessage_start w) =
           fetches w @ [chatRequest (ascii ''http://localhost:8000/chat/'') w]"
  using assms by (simp add: sendMessage_start_def page_sendMessage_start_def sendMessage_sync_accepted)

theorem accepted_submit_appends_user_turn_witness:
  "conversations
     (sendMessage_start (ascii ''http://api'') (example_world \<lparr> message := ascii '' hello '' \<rparr>)) =
     [\<lparr> role = User, content = Bare (Value (JStr (ascii '' hello ''))) \<rparr>] \<and>
   loading (sendMessage_start (ascii ''http://api'') (example_world \<lparr> message := ascii '' hello '' \<rparr>)) \<and>
   conversations (page_sendMessage_start (example_world \<lparr> message := ascii '' hello '' \<rparr>)) =
     [\<lparr> role = User, content = Bare (Value (JStr (ascii '' hello ''))) \<rparr>] \<and>
   loading (page_sendMessage_start (example_world \<lparr> message := ascii '' hello '' \<rparr>))"
proof -
  let ?w = "example_world \<lparr> message := ascii '' hello '' \<rparr>"
  have t: "trim (message ?w) \<noteq> []"
    by (simp add: trim_def isSpace_def ascii_def)
  have s: "selectedAssistant ?w \<noteq> []"
    by (simp add: example_world_def ascii_def)
  have c: "conversations ?w = []"
    by (simp add: example_world_def)
  show ?thesis
    using accepted_submit_appends_user_turn [OF t s, of "ascii ''http://api''"]
    by (simp add: c)
qed





subsection \<open>The form\<close>

lemma handle_loading:
  "loading w \<Longrightarrow>
   handle u w e =
     w \<lparr> selectedAssistant := (case e of ValueChange v \<Rightarrow> v | _ \<Rightarrow> selectedAssistant w) \<rparr>"
  by (cases e) (simp_all add: disabled_def)

lemma events_loading:
  "loading w \<Longrightarrow>
   loading (foldl (handle u) w es) \<and>
   conversations (foldl (handle u) w es) = conversations w \<and>
   fetches (foldl (handle u) w es) = fetches w \<and>
   console (foldl (handle u) w es) = console w \<and>
   message (foldl (handle u) w es) = message w \<and>
   assistants (foldl (handle u) w es) = assistants w"
proof (induction es arbitrary: w)
  case Nil
  then show ?case by simp
next
  case (Cons e es)
  have l: "loading (handle u w e)"
    using Cons.prems by (simp add: handle_loading)
  show ?case
    using Cons.IH [OF l] Cons.prems by (simp add: handle_loading)
qed

text \<open>
  The handler itself does not read \<open>loading\<close>: were it called while a request is
  outstanding, it would append and send again. The guard of an exchange in flight is
  the disabled button alone.
\<close>

lemma sendMessage_sync_ignores_loading:
  "trim (message w) \<noteq> [] \<Longrightarrow> selectedAssistant w \<noteq> [] \<Longrightarrow>
   sendMessage_sync u (w \<lparr> loading := True \<rparr>) =
     (sendMessage_sync u w) \<lparr> loading := True \<rparr>"
  by (simp add: sendMessage_sync_def chatRequest_def)

text \<open>
  Claim C3. While an exchange is in flight (\<open>loading\<close> is true), a submit of the form
  is a no-op: it leaves the whole state as it is, appends no turn and sends no request.
  This stays so whatever the user does in between (typing, selecting, submitting
  again): after any such events the state is still loading, with the same conversation,
  the same requests sent, the same console and the same message, and a further submit
  again changes nothing. Only the end of the exchange clears \<open>loading\<close>.
\<close>

theorem submit_in_flight_is_noop:
  assumes "loading w"
  shows "handle u w Submit = w \<and>
         loading (foldl (handle u) w es) \<and>
         conversations (foldl (handle u) w es) = conversations w \<and>
         fetches (foldl (handle u) w es) = fetches w \<and>
         console (foldl (handle u) w es) = console w \<and>
         message (foldl (handle u) w es) = message w \<and>
         handle u (foldl (handle u) w es) Submit = foldl (handle u) w es"
  using events_loading [OF assms, of u es] assms by (simp add: disabled_def)

theorem submit_in_flight_is_noop_witness:
  "handle (ascii ''http://api/chat/'') (sendMessage_start (ascii ''http://api'') example_world) Submit =
     sendMessage_start (ascii ''http://api'') example_world \<and>
   conversations
     (foldl (handle (ascii ''http://api/chat/'')) (sendMessage_start (ascii ''http://api'') example_world)
        [Submit, Change (ascii ''again''), ValueChange (ascii ''a2''), Submit]) =
     [\<lparr> role = User, content = Bare (Value (JStr (ascii ''hello''))) \<rparr>] \<and>
   length (fetches
     (foldl (handle (ascii ''http://api/chat/'')) (sendMessage_start (ascii ''http://api'') example_world)
        [Submit, Change (ascii ''again''), ValueChange (ascii ''a2''), Submit])) = 1"
proof -
  let ?w = "sendMessage_start (ascii ''http://api'') example_world"
  have w: "loading ?w"
    "conversations ?w = [\<lparr> role = User, content = Bare (Value (JStr (ascii ''hello''))) \<rparr>]"
    "length (fetches ?w) = 1"
    by (simp_all add: sendMessage_start_def sendMessage_sync_accepted example_world_def trim_hello
        ascii_not_empty)
  show ?thesis
    using submit_in_flight_is_noop [OF w(1), of "ascii ''http://api/chat/''"
        "[Submit, Change (ascii ''again''), ValueChange (ascii ''a2''), Submit]"]
    by (simp add: w(2,3) del: foldl_Cons foldl_Nil handle.simps)
qed

end
